theory Spec2Isabelle
  imports Complex_Main "HOL-Library.Word"
begin

section \<open>The relay dashboard of \<open>src/App.js\<close>\<close>

text \<open>
  \<open>App.js\<close> opens one WebSocket to the relay, subscribes when the socket opens, turns
  every inbound frame into an update of four pieces of React state (\<open>events\<close>,
  \<open>isConnected\<close>, \<open>hasFetchedAllEvents\<close>, \<open>relayInformationDocument\<close>), fetches the
  relay information document once, and unsubscribes in the effect's cleanup. The
  handlers are embedded here as functions on an explicit state; an exception that
  leaves a handler is the \<open>Inl\<close> branch of its result.
\<close>

subsection \<open>JavaScript values\<close>

text \<open>
  A JavaScript string is a sequence of UTF-16 code units; \<open>length\<close> counts code units
  and \<open>s[0]\<close> is the string of the first one. \<open>ascii\<close> writes a string literal of the
  source whose characters are all ASCII.
\<close>

type_synonym code_unit = "16 word"

type_synonym js_string = "code_unit list"

definition ascii :: "string \<Rightarrow> js_string" where
  "ascii cs = map of_char cs"

text \<open>
  The numbers \<open>JSON.parse\<close> can produce: a finite value, negative zero (the text
  \<open>-0\<close>), and the two infinities (a literal too large for a double, such as
  \<open>1e999\<close>). A finite double is kept by its exact value.
\<close>

datatype js_number = Finite rat | NegZero | PosInfinity | NegInfinity

text \<open>
  The values \<open>JSON.parse\<close> returns. An object is the list of its own properties; a
  lookup finds the first entry for a key. \<open>undefined\<close> is not a JSON value: a property
  read returns a \<open>json option\<close>, with \<open>None\<close> for \<open>undefined\<close>.
\<close>

datatype json =
    JNull
  | JBool bool
  | JNumber js_number
  | JString js_string
  | JArray "json list"
  | JObject "(js_string \<times> json) list"

datatype js_error = SyntaxError | TypeError | InvalidStateError

text \<open>
  The text of a frame or of a response body, as \<open>JSON.parse\<close> sees it: text that is
  not JSON (\<open>JSON.parse\<close> throws a \<open>SyntaxError\<close>), or the JSON text of a value.
\<close>

datatype json_text = Not_JSON | JSON_text json

fun JSON_parse :: "json_text \<Rightarrow> js_error + json" where
  "JSON_parse Not_JSON = Inl SyntaxError"
| "JSON_parse (JSON_text v) = Inr v"

text \<open>\<open>!x\<close> is \<open>\<not> truthy x\<close>: JavaScript's \<open>ToBoolean\<close>.\<close>

fun truthy :: "json option \<Rightarrow> bool" where
  "truthy None = False"
| "truthy (Some JNull) = False"
| "truthy (Some (JBool b)) = b"
| "truthy (Some (JNumber n)) = (n \<noteq> Finite 0 \<and> n \<noteq> NegZero)"
| "truthy (Some (JString s)) = (s \<noteq> [])"
| "truthy (Some (JArray xs)) = True"
| "truthy (Some (JObject ps)) = True"

text \<open>
  \<open>data.length\<close>: reading a property of \<open>null\<close> throws a \<open>TypeError\<close>; a boolean or a
  number has no such property; a string and an array have their length; an object has
  it when \<open>length\<close> is one of its own properties.
\<close>

fun length_prop :: "json \<Rightarrow> js_error + json option" where
  "length_prop JNull = Inl TypeError"
| "length_prop (JBool b) = Inr None"
| "length_prop (JNumber n) = Inr None"
| "length_prop (JString s) = Inr (Some (JNumber (Finite (of_nat (length s)))))"
| "length_prop (JArray xs) = Inr (Some (JNumber (Finite (of_nat (length xs)))))"
| "length_prop (JObject ps) = Inr (map_of ps (ascii ''length''))"

text \<open>The property key of an index: its decimal digits.\<close>

fun decimal :: "nat \<Rightarrow> js_string" where
  "decimal n =
     (if n < 10 then [0x30 + of_nat n]
      else decimal (n div 10) @ [0x30 + of_nat (n mod 10)])"

declare decimal.simps [simp del]

text \<open>
  \<open>data[i]\<close> on a value that is not \<open>null\<close>: the element of an array, the one-unit
  string of a string, the own property named by the digits of \<open>i\<close> of an object, and
  \<open>undefined\<close> out of range or on a boolean or a number.
\<close>

fun index_prop :: "json \<Rightarrow> nat \<Rightarrow> json option" where
  "index_prop (JString s) i = (if i < length s then Some (JString [s ! i]) else None)"
| "index_prop (JArray xs) i = (if i < length xs then Some (xs ! i) else None)"
| "index_prop (JObject ps) i = map_of ps (decimal i)"
| "index_prop v i = None"

text \<open>
  \<open>v.name\<close> on a value that is neither \<open>undefined\<close> nor \<open>null\<close>, for a name that no
  built-in prototype defines (the handler reads \<open>id\<close>, \<open>kind\<close>, \<open>created_at\<close> and
  \<open>content\<close>): an own property of an object, \<open>undefined\<close> on anything else.
\<close>

fun field :: "json \<Rightarrow> js_string \<Rightarrow> json option" where
  "field (JObject ps) name = map_of ps name"
| "field v name = None"

subsection \<open>State\<close>

text \<open>The object \<open>{ id, kind, created_at, content }\<close> that the handler stores.\<close>

record event =
  id' :: "json option"
  kind :: "json option"
  created_at :: "json option"
  content :: "json option"

datatype ready_state = CONNECTING | OPEN | CLOSING | CLOSED

datatype log_entry = Console_error js_string json

record request =
  url :: js_string
  http_method :: js_string
  headers :: "(js_string \<times> js_string) list"

text \<open>
  The four \<open>useState\<close> cells of \<open>App\<close>, and what the handlers do to the world around
  them: the socket's \<open>readyState\<close>, the frames handed to \<open>socket.send\<close> (each the value
  given to \<open>JSON.stringify\<close>, oldest first), the calls of \<open>console.error\<close>, and the
  requests given to \<open>fetch\<close>.
\<close>

record state =
  events :: "event list"
  isConnected :: bool
  hasFetchedAllEvents :: bool
  relayInformationDocument :: json
  readyState :: ready_state
  sent :: "json list"
  console :: "log_entry list"
  requests :: "request list"

text \<open>
  The initial values of the \<open>useState\<close> cells and the socket that \<open>new WebSocket\<close> has
  just made: connecting, with nothing sent, logged or fetched yet.
\<close>

definition initial_state :: state where
  "initial_state =
     \<lparr>events = [], isConnected = False, hasFetchedAllEvents = False,
      relayInformationDocument = JObject [], readyState = CONNECTING, sent = [],
      console = [], requests = []\<rparr>"

subsection \<open>The socket\<close>

text \<open>
  \<open>socket.send\<close> throws an \<open>InvalidStateError\<close> while the socket is connecting, transmits
  when it is open, and discards the frame silently once it is closing or closed.
  \<open>socket.close\<close> starts the closing handshake of a socket that is connecting or open
  and does nothing otherwise.
\<close>

definition send :: "json \<Rightarrow> state \<Rightarrow> js_error + state" where
  "send frame s =
     (case readyState s of
        CONNECTING \<Rightarrow> Inl InvalidStateError
      | OPEN \<Rightarrow> Inr (s\<lparr>sent := sent s @ [frame]\<rparr>)
      | CLOSING \<Rightarrow> Inr s
      | CLOSED \<Rightarrow> Inr s)"

definition close :: "state \<Rightarrow> state" where
  "close s =
     (case readyState s of
        CONNECTING \<Rightarrow> s\<lparr>readyState := CLOSING\<rparr>
      | OPEN \<Rightarrow> s\<lparr>readyState := CLOSING\<rparr>
      | CLOSING \<Rightarrow> s
      | CLOSED \<Rightarrow> s)"

subsection \<open>The handlers of the effect\<close>

text \<open>
  \<open>subscriptionID\<close> is the random string the effect draws once; the handlers close over
  it, so it is an argument here.
\<close>

definition REQ_frame :: "js_string \<Rightarrow> json" where
  "REQ_frame subscriptionID =
     JArray [JString (ascii ''REQ''), JString subscriptionID,
             JObject [(ascii ''limit'', JNumber (Finite 1000))]]"

definition CLOSE_frame :: "js_string \<Rightarrow> json" where
  "CLOSE_frame subscriptionID = JArray [JString (ascii ''CLOSE''), JString subscriptionID]"

text \<open>\<open>socket.onopen\<close>: \<open>setIsConnected(true)\<close>, \<open>setEvents([])\<close>, then the subscribe request.\<close>

definition onopen :: "js_string \<Rightarrow> state \<Rightarrow> js_error + state" where
  "onopen subscriptionID s =
     send (REQ_frame subscriptionID) (s\<lparr>isConnected := True, events := []\<rparr>)"

text \<open>
  The destructuring \<open>const { id, kind, created_at, content } = data[2]\<close> throws a
  \<open>TypeError\<close> on \<open>undefined\<close> and on \<open>null\<close>, and reads the four properties of any other
  value.
\<close>

definition relevant :: "json \<Rightarrow> event" where
  "relevant v =
     \<lparr>id' = field v (ascii ''id''), kind = field v (ascii ''kind''),
      created_at = field v (ascii ''created_at''),
      content = field v (ascii ''content'')\<rparr>"

fun destructure :: "json option \<Rightarrow> js_error + event" where
  "destructure None = Inl TypeError"
| "destructure (Some JNull) = Inl TypeError"
| "destructure (Some v) = Inr (relevant v)"

text \<open>
  \<open>socket.onmessage\<close>. React runs the updater given to \<open>setEvents\<close> when it processes the
  update; the model applies it at once, and an exception raised inside it is the result
  of the step.
\<close>

definition onmessage :: "json_text \<Rightarrow> state \<Rightarrow> js_error + state" where
  "onmessage message_data s =
     (case JSON_parse message_data of
        Inl e \<Rightarrow> Inl e
      | Inr data \<Rightarrow>
          (case length_prop data of
             Inl e \<Rightarrow> Inl e
           | Inr len \<Rightarrow>
               if \<not> truthy len then
                 Inr (s\<lparr>console := console s @
                        [Console_error (ascii ''Error: No data length'') data]\<rparr>)
               else if index_prop data 0 = Some (JString (ascii ''EOSE'')) then
                 Inr (s\<lparr>hasFetchedAllEvents := True\<rparr>)
               else if index_prop data 0 = Some (JString (ascii ''EVENT'')) then
                 (case destructure (index_prop data 2) of
                    Inl e \<Rightarrow> Inl e
                  | Inr ev \<Rightarrow> Inr (s\<lparr>events := ev # events s\<rparr>))
               else Inr s))"

text \<open>\<open>socket.onerror\<close> and \<open>socket.onclose\<close>: \<open>setIsConnected(false)\<close>.\<close>

definition onerror :: "state \<Rightarrow> state" where
  "onerror s = s\<lparr>isConnected := False\<rparr>"

definition onclose :: "state \<Rightarrow> state" where
  "onclose s = s\<lparr>isConnected := False\<rparr>"

text \<open>The cleanup function the effect returns.\<close>

definition cleanup :: "js_string \<Rightarrow> state \<Rightarrow> js_error + state" where
  "cleanup subscriptionID s =
     (if readyState s = OPEN then
        (case send (CLOSE_frame subscriptionID) s of
           Inl e \<Rightarrow> Inl e
         | Inr s' \<Rightarrow> Inr (close s'))
      else Inr s)"

text \<open>
  The frames of a connection are handled one after the other, each from the state the
  one before it left. \<open>run_messages\<close> gives the state after the last frame when every
  frame is handled, and otherwise the first exception that leaves the handler.
\<close>

fun run_messages :: "json_text list \<Rightarrow> state \<Rightarrow> js_error + state" where
  "run_messages [] s = Inr s"
| "run_messages (m # ms) s =
     (case onmessage m s of Inl e \<Rightarrow> Inl e | Inr s' \<Rightarrow> run_messages ms s')"

subsection \<open>The relay information document\<close>

text \<open>
  The effect calls \<open>fetch(HttpRelayUrl, { method: "GET", headers: { Accept:
  "application/nostr+json" } })\<close> once. \<open>HttpRelayUrl\<close> is built from the page's
  location, so it is an argument here.
\<close>

definition relay_info_request :: "js_string \<Rightarrow> request" where
  "relay_info_request HttpRelayUrl =
     \<lparr>url = HttpRelayUrl, http_method = ascii ''GET'',
      headers = [(ascii ''Accept'', ascii ''application/nostr+json'')]\<rparr>"

definition fetch_relay_info :: "js_string \<Rightarrow> state \<Rightarrow> state" where
  "fetch_relay_info HttpRelayUrl s =
     s\<lparr>requests := requests s @ [relay_info_request HttpRelayUrl]\<rparr>"

text \<open>
  How the promise of \<open>fetch\<close> settles: rejected (a network error, which \<open>fetch\<close> reports
  as a \<open>TypeError\<close>), or fulfilled with a response, of which the callback reads the status
  and the body.
\<close>

datatype fetch_outcome = Rejected | Response nat json_text

text \<open>\<open>response.ok\<close>: the status is in the range 200 to 299.\<close>

definition ok :: "nat \<Rightarrow> bool" where
  "ok status = (200 \<le> status \<and> status \<le> 299)"

text \<open>
  The callback given to \<open>then\<close>. \<open>response.json()\<close> rejects when the body is not JSON,
  and the rejection leaves the \<open>async\<close> callback before it sets the state.
\<close>

definition on_response :: "nat \<Rightarrow> json_text \<Rightarrow> state \<Rightarrow> js_error + state" where
  "on_response status body s =
     (if ok status then
        (case JSON_parse body of
           Inl e \<Rightarrow> Inl e
         | Inr relayInfoDoc \<Rightarrow> Inr (s\<lparr>relayInformationDocument := relayInfoDoc\<rparr>))
      else Inr s)"

text \<open>
  The state once the promise chain has settled, with the reason of the rejection when
  it ends rejected. The chain has no \<open>catch\<close>: a rejection is reported by the browser
  and changes no state.
\<close>

definition fetch_settled :: "fetch_outcome \<Rightarrow> state \<Rightarrow> state \<times> js_error option" where
  "fetch_settled outcome s =
     (case outcome of
        Rejected \<Rightarrow> (s, Some TypeError)
      | Response status body \<Rightarrow>
          (case on_response status body s of
             Inl e \<Rightarrow> (s, Some e)
           | Inr s' \<Rightarrow> (s', None)))"

subsection \<open>The table of event kinds\<close>

text \<open>
  The values of \<open>supportedEventKinds\<close>. A property the source leaves out (\<open>showContent\<close>,
  \<open>contentKey\<close>) is \<open>None\<close>. The icons are written as their UTF-16 code units.
\<close>

record descriptor =
  icon :: js_string
  name :: js_string
  showContent :: "bool option"
  contentKey :: "js_string option"

text \<open>
  The keys of \<open>supportedEventKinds\<close>: the numeric keys, each the property name that
  reading the table at that integer looks up, and \<open>other\<close>.
\<close>

datatype kind_key = Kind int | Other

definition other :: descriptor where
  "other =
     \<lparr>icon = [0xD83D, 0xDEE0], name = ascii ''Other Action'',
      showContent = None, contentKey = None\<rparr>"

definition supportedEventKinds :: "(kind_key \<times> descriptor) list" where
  "supportedEventKinds =
     [(Kind 0, \<lparr>icon = [0xD83D, 0xDCDD], name = ascii ''Profile Update'',
                showContent = None, contentKey = None\<rparr>),
      (Kind 1, \<lparr>icon = [0xD83D, 0xDCAD], name = ascii ''Post'',
                showContent = Some True, contentKey = None\<rparr>),
      (Kind 2, \<lparr>icon = [0xD83D, 0xDCF6], name = ascii ''Relay Update'',
                showContent = None, contentKey = None\<rparr>),
      (Kind 3, \<lparr>icon = [0xD83E, 0xDD1D], name = ascii ''Following Update'',
                showContent = None, contentKey = None\<rparr>),
      (Kind 4, \<lparr>icon = [0xD83D, 0xDD0F], name = ascii ''Encrypted DM'',
                showContent = None, contentKey = None\<rparr>),
      (Kind 5, \<lparr>icon = [0xD83D, 0xDDD1], name = ascii ''Deleted Action'',
                showContent = None, contentKey = None\<rparr>),
      (Kind 6, \<lparr>icon = [0xD83D, 0xDD01], name = ascii ''Repost'',
                showContent = None, contentKey = None\<rparr>),
      (Kind 7, \<lparr>icon = [0xD83E, 0xDD19], name = ascii ''Reaction'',
                showContent = None, contentKey = None\<rparr>),
      (Kind 40, \<lparr>icon = [0xD83E, 0xDDD9, 0x200D, 0x2642, 0xFE0F],
                 name = ascii ''Channel Creation'',
                 showContent = Some True, contentKey = Some (ascii ''name'')\<rparr>),
      (Kind 41, \<lparr>icon = [0xD83E, 0xDE84], name = ascii ''Channel Update'',
                 showContent = Some True, contentKey = Some (ascii ''name'')\<rparr>),
      (Kind 42, \<lparr>icon = [0xD83D, 0xDCE2], name = ascii ''Channel Message'',
                 showContent = Some True, contentKey = None\<rparr>),
      (Kind 43, \<lparr>icon = [0xD83D, 0xDE48], name = ascii ''Hid Message'',
                 showContent = None, contentKey = None\<rparr>),
      (Kind 44, \<lparr>icon = [0xD83D, 0xDE4A], name = ascii ''Muted User'',
                 showContent = None, contentKey = None\<rparr>),
      (Kind 22242, \<lparr>icon = [0xD83D, 0xDD13], name = ascii ''Authenticated Relay'',
                    showContent = None, contentKey = None\<rparr>),
      (Other, other)]"

text \<open>
  Modelled from the spec: the lookup itself (\<open>classify\<close>) lives in the components that
  render the events (\<open>LatestActions\<close>, \<open>TotalBackups\<close>), which are not among the sources;
  only the table is. The spec: an exact-match lookup against the table, and any kind
  not present maps to the generic \<open>other\<close> descriptor.
\<close>

definition classify :: "int \<Rightarrow> descriptor" where
  "classify k =
     (case map_of supportedEventKinds (Kind k) of
        Some d \<Rightarrow> d
      | None \<Rightarrow> other)"

subsection \<open>Frames of the relay\<close>

text \<open>
  The inbound frames of the protocol: \<open>["EVENT", subscriptionId, payload, ...]\<close> and
  \<open>["EOSE", subscriptionId, ...]\<close>, with whatever follows the tag left open.
\<close>

definition EVENT_frame :: "json \<Rightarrow> json \<Rightarrow> json list \<Rightarrow> json_text" where
  "EVENT_frame subscriptionId payload rest =
     JSON_text (JArray (JString (ascii ''EVENT'') # subscriptionId # payload # rest))"

definition EOSE_frame :: "json list \<Rightarrow> json_text" where
  "EOSE_frame rest = JSON_text (JArray (JString (ascii ''EOSE'') # rest))"

subsection \<open>Sample inputs\<close>

text \<open>
  Two payloads with the same \<open>id\<close>, a relay information document, and the state of a
  connection that has just opened.
\<close>

definition post_a :: json where
  "post_a =
     JObject [(ascii ''id'', JString (ascii ''a'')), (ascii ''kind'', JNumber (Finite 1)),
              (ascii ''created_at'', JNumber (Finite 100)),
              (ascii ''content'', JString (ascii ''hi''))]"

definition post_a_again :: json where
  "post_a_again =
     JObject [(ascii ''id'', JString (ascii ''a'')), (ascii ''kind'', JNumber (Finite 1)),
              (ascii ''created_at'', JNumber (Finite 101)),
              (ascii ''content'', JString (ascii ''again''))]"

definition sub1 :: json where
  "sub1 = JString (ascii ''sub1'')"

definition info_doc :: json where
  "info_doc = JObject [(ascii ''version'', JString (ascii ''0.8.9''))]"

definition open_state :: state where
  "open_state = initial_state\<lparr>readyState := OPEN\<rparr>"

section \<open>Properties\<close>

subsection \<open>Auxiliary facts\<close>

lemma ascii_tags [simp]:
  "ascii ''EVENT'' \<noteq> ascii ''EOSE''" "ascii ''EOSE'' \<noteq> ascii ''EVENT''"
  by (simp_all add: ascii_def)

lemma onmessage_EVENT:
  "p \<noteq> JNull \<Longrightarrow>
   onmessage (EVENT_frame sub p rest) s = Inr (s\<lparr>events := relevant p # events s\<rparr>)"
  by (cases p) (simp_all add: onmessage_def EVENT_frame_def)

lemma onmessage_EOSE:
  "onmessage (EOSE_frame rest) s = Inr (s\<lparr>hasFetchedAllEvents := True\<rparr>)"
  by (simp add: onmessage_def EOSE_frame_def)

lemma sample_payloads [simp]: "post_a \<noteq> JNull" "post_a_again \<noteq> JNull"
  by (simp_all add: post_a_def post_a_again_def)

subsection \<open>The event list\<close>

text \<open>
  Claim C1, as the code has it. Let any sequence of \<open>EVENT\<close> frames arrive, each carrying
  a payload at index 2 that is not \<open>null\<close>. The handler processes all of them, and the
  event list is then the payloads' stored fields in reverse order of arrival, in front
  of the events that were there before: one entry per frame, nothing dropped,
  reordered, merged or deduplicated, whatever the ids are.
\<close>

theorem events_reverse_arrival:
  assumes "JNull \<notin> set (map (\<lambda>(sub, p, rest). p) arrivals)"
  shows "run_messages (map (\<lambda>(sub, p, rest). EVENT_frame sub p rest) arrivals) s =
           Inr (s\<lparr>events := rev (map (\<lambda>(sub, p, rest). relevant p) arrivals) @ events s\<rparr>)"
  using assms
proof (induction arrivals arbitrary: s)
  case Nil
  then show ?case by simp
next
  case (Cons a arrivals)
  obtain sub p rest where a: "a = (sub, p, rest)"
    by (cases a)
  with Cons.prems have "p \<noteq> JNull"
    by auto
  then have step: "onmessage (EVENT_frame sub p rest) s = Inr (s\<lparr>events := relevant p # events s\<rparr>)"
    by (rule onmessage_EVENT)
  from Cons.prems have "JNull \<notin> set (map (\<lambda>(sub, p, rest). p) arrivals)"
    by simp
  with step show ?case
    using Cons.IH a by simp
qed

text \<open>Two frames with the same id \<open>a\<close> leave two entries, the later one first.\<close>

theorem events_reverse_arrival_witness:
  "JNull \<notin> set (map (\<lambda>(sub, p, rest). p) [(sub1, post_a, []), (sub1, post_a_again, [])]) \<and>
   run_messages [EVENT_frame sub1 post_a [], EVENT_frame sub1 post_a_again []] initial_state =
     Inr (initial_state\<lparr>events := [relevant post_a_again, relevant post_a]\<rparr>) \<and>
   id' (relevant post_a_again) = id' (relevant post_a) \<and>
   relevant post_a_again \<noteq> relevant post_a"
  using events_reverse_arrival [of "[(sub1, post_a, []), (sub1, post_a_again, [])]" initial_state]
  by (simp add: initial_state_def relevant_def post_a_def post_a_again_def ascii_def)

text \<open>
  The claim as stated, for every sequence of frames tagged \<open>EVENT\<close>, fails on a sequence
  that holds a frame without a payload, \<open>["EVENT", "sub1"]\<close>, or with the payload \<open>null\<close>:
  the run ends in a \<open>TypeError\<close> and gives no event list, though other frames of the
  sequence carry events.
\<close>

theorem events_lost_on_frame_without_payload:
  "run_messages
     [EVENT_frame sub1 post_a [], JSON_text (JArray [JString (ascii ''EVENT''), sub1]),
      EVENT_frame sub1 post_a_again []] initial_state = Inl TypeError \<and>
   run_messages [EVENT_frame sub1 post_a [], EVENT_frame sub1 JNull []] initial_state =
     Inl TypeError"
  by (simp add: onmessage_def EVENT_frame_def post_a_def post_a_again_def)

subsection \<open>Opening the connection\<close>

text \<open>
  Claim C2, as the code has it. When the socket is open, the open handler empties the
  event list, sets \<open>isConnected\<close>, and sends exactly one frame, \<open>["REQ", subscriptionID,
  {limit: 1000}]\<close>; it returns without an exception and changes nothing else. In
  particular it leaves \<open>hasFetchedAllEvents\<close> as it was: the handler never writes it.
\<close>

theorem onopen_effect:
  assumes "readyState s = OPEN"
  shows "onopen subscriptionID s =
           Inr (s\<lparr>isConnected := True, events := [],
                  sent := sent s @
                    [JArray [JString (ascii ''REQ''), JString subscriptionID,
                             JObject [(ascii ''limit'', JNumber (Finite 1000))]]]\<rparr>) \<and>
         map_sum id hasFetchedAllEvents (onopen subscriptionID s) = Inr (hasFetchedAllEvents s)"
  using assms by (simp add: onopen_def send_def REQ_frame_def)

theorem onopen_effect_witness:
  "readyState open_state = OPEN \<and>
   onopen (ascii ''sub1'') (open_state\<lparr>events := [relevant post_a]\<rparr>) =
     Inr (open_state\<lparr>isConnected := True,
            sent := [JArray [JString (ascii ''REQ''), JString (ascii ''sub1''),
                             JObject [(ascii ''limit'', JNumber (Finite 1000))]]]\<rparr>)"
  using onopen_effect [of "open_state\<lparr>events := [relevant post_a]\<rparr>" "ascii ''sub1''"]
  by (simp add: open_state_def initial_state_def)

text \<open>
  The claim as stated fails where \<open>hasFetchedAllEvents\<close> is true when the socket opens:
  it is still true afterwards.
\<close>

theorem onopen_keeps_hasFetchedAllEvents:
  "map_sum id hasFetchedAllEvents
     (onopen (ascii ''sub1'') (open_state\<lparr>hasFetchedAllEvents := True\<rparr>)) = Inr True"
  by (simp add: onopen_def send_def open_state_def initial_state_def)

subsection \<open>The cleanup\<close>

text \<open>
  Claim C3, as the code has it. The cleanup never throws. When the socket is open it
  sends exactly one frame, \<open>["CLOSE", subscriptionID]\<close>, and then closes the socket.
  When the socket is not open it sends nothing and does not close it either: the call
  of \<open>close\<close> stands inside the test for an open socket, and the state is left as it is.
\<close>

theorem cleanup_effect:
  "cleanup subscriptionID s =
     Inr (if readyState s = OPEN
          then s\<lparr>sent := sent s @ [JArray [JString (ascii ''CLOSE''), JString subscriptionID]],
                 readyState := CLOSING\<rparr>
          else s)"
  by (simp add: cleanup_def send_def close_def CLOSE_frame_def)

theorem cleanup_effect_witness:
  "cleanup (ascii ''sub1'') open_state =
     Inr (open_state\<lparr>sent := [JArray [JString (ascii ''CLOSE''), JString (ascii ''sub1'')]],
            readyState := CLOSING\<rparr>) \<and>
   cleanup (ascii ''sub1'') (open_state\<lparr>readyState := CLOSED\<rparr>) =
     Inr (open_state\<lparr>readyState := CLOSED\<rparr>)"
  using cleanup_effect [of "ascii ''sub1''" open_state]
    cleanup_effect [of "ascii ''sub1''" "open_state\<lparr>readyState := CLOSED\<rparr>"]
  by (simp add: open_state_def initial_state_def)

text \<open>
  The claim as stated fails on a socket that is still connecting: the cleanup leaves it
  connecting, where a call of \<open>close\<close> would have started to close it.
\<close>

theorem cleanup_leaves_connecting_socket:
  "cleanup (ascii ''sub1'') initial_state = Inr initial_state \<and>
   readyState initial_state = CONNECTING \<and>
   readyState (close initial_state) = CLOSING"
  by (simp add: cleanup_def close_def initial_state_def)

subsection \<open>Faults of the message handler\<close>

text \<open>
  Claim C4, as the code has it. A frame whose text is JSON for a value other than
  \<open>null\<close>, and which carries a value other than \<open>null\<close> at index 2 when its tag is
  \<open>EVENT\<close>, is handled without a fault. Text that is not JSON is not contained: the
  \<open>SyntaxError\<close> of \<open>JSON.parse\<close> leaves the handler, which has no \<open>try\<close>.
\<close>

theorem onmessage_completes:
  assumes "data \<noteq> JNull"
    and "index_prop data 0 = Some (JString (ascii ''EVENT'')) \<longrightarrow>
           index_prop data 2 \<notin> {None, Some JNull}"
  shows "(\<exists>s'. onmessage (JSON_text data) s = Inr s') \<and>
         onmessage Not_JSON s = Inl SyntaxError"
proof -
  from assms(1) obtain len where len: "length_prop data = Inr len"
    by (cases data) simp_all
  have "\<exists>s'. onmessage (JSON_text data) s = Inr s'"
  proof (cases "index_prop data 0 = Some (JString (ascii ''EVENT''))")
    case True
    with assms(2) obtain p where "index_prop data 2 = Some p" "p \<noteq> JNull"
      by auto
    then obtain ev where "destructure (index_prop data 2) = Inr ev"
      by (cases p) simp_all
    with len True show ?thesis
      by (simp add: onmessage_def)
  next
    case False
    with len show ?thesis
      by (simp add: onmessage_def)
  qed
  then show ?thesis
    by (simp add: onmessage_def)
qed

theorem onmessage_completes_witness:
  "JArray [JString (ascii ''EVENT''), sub1, post_a] \<noteq> JNull \<and>
   index_prop (JArray [JString (ascii ''EVENT''), sub1, post_a]) 0 = Some (JString (ascii ''EVENT'')) \<and>
   index_prop (JArray [JString (ascii ''EVENT''), sub1, post_a]) 2 \<notin> {None, Some JNull} \<and>
   (\<exists>s'. onmessage (JSON_text (JArray [JString (ascii ''EVENT''), sub1, post_a])) initial_state = Inr s') \<and>
   onmessage Not_JSON initial_state = Inl SyntaxError"
  using onmessage_completes [of "JArray [JString (ascii ''EVENT''), sub1, post_a]" initial_state]
  by simp

text \<open>
  The claim as stated fails on text that is not JSON, and on the JSON text \<open>null\<close>,
  where reading \<open>data.length\<close> throws a \<open>TypeError\<close>.
\<close>

theorem onmessage_propagates_fault:
  "onmessage Not_JSON initial_state = Inl SyntaxError \<and>
   onmessage (JSON_text JNull) initial_state = Inl TypeError"
  by (simp add: onmessage_def)

subsection \<open>End of stored events\<close>

text \<open>
  Claim C5. A frame tagged \<open>EOSE\<close> sets \<open>hasFetchedAllEvents\<close> and changes nothing else.
  On a state where the flag is already set a further such frame changes nothing at all,
  and any run of one or more such frames ends in the state the first one gives.
\<close>

theorem EOSE_idempotent:
  "onmessage (EOSE_frame rest) s = Inr (s\<lparr>hasFetchedAllEvents := True\<rparr>) \<and>
   onmessage (EOSE_frame rest') (s\<lparr>hasFetchedAllEvents := True\<rparr>) =
     Inr (s\<lparr>hasFetchedAllEvents := True\<rparr>) \<and>
   run_messages (map EOSE_frame (rest # rests)) s = Inr (s\<lparr>hasFetchedAllEvents := True\<rparr>)"
proof -
  have "run_messages (map EOSE_frame rs) (t\<lparr>hasFetchedAllEvents := True\<rparr>) =
          Inr (t\<lparr>hasFetchedAllEvents := True\<rparr>)" for rs and t :: state
    by (induction rs) (simp_all add: onmessage_EOSE)
  then show ?thesis
    by (simp add: onmessage_EOSE)
qed

theorem EOSE_idempotent_witness:
  "run_messages [EOSE_frame [sub1], EOSE_frame [sub1], EOSE_frame []] open_state =
     Inr (open_state\<lparr>hasFetchedAllEvents := True\<rparr>) \<and>
   onmessage (EOSE_frame [sub1]) open_state = Inr (open_state\<lparr>hasFetchedAllEvents := True\<rparr>)"
  using EOSE_idempotent [of "[sub1]" open_state "[]" "[[sub1], []]"]
  by (simp add: onmessage_EOSE)

subsection \<open>The empty frame\<close>

text \<open>
  Claim C6. The frame \<open>[]\<close> is logged with \<open>console.error\<close> and dropped: the handler
  returns with the event list, \<open>hasFetchedAllEvents\<close> and everything but the log
  unchanged, and the frames after it are processed from that state.
\<close>

theorem empty_frame_dropped:
  "onmessage (JSON_text (JArray [])) s =
     Inr (s\<lparr>console := console s @
              [Console_error (ascii ''Error: No data length'') (JArray [])]\<rparr>) \<and>
   run_messages (JSON_text (JArray []) # ms) s =
     run_messages ms
       (s\<lparr>console := console s @
             [Console_error (ascii ''Error: No data length'') (JArray [])]\<rparr>)"
  by (simp add: onmessage_def)

theorem empty_frame_dropped_witness:
  "run_messages [JSON_text (JArray []), EOSE_frame [sub1]] initial_state =
     Inr (initial_state\<lparr>console := [Console_error (ascii ''Error: No data length'') (JArray [])],
            hasFetchedAllEvents := True\<rparr>)"
  using empty_frame_dropped [of initial_state "[EOSE_frame [sub1]]"]
  by (simp add: onmessage_EOSE initial_state_def)

subsection \<open>Classification\<close>

text \<open>
  Claim C7. For every integer kind the lookup with fallback yields a descriptor. The
  table has an entry for exactly the 14 kinds 0 to 7, 40 to 44 and 22242, the lookup
  yields that entry for each of them, none of them is the \<open>other\<close> descriptor, and every
  other integer, negative ones included, yields the \<open>other\<close> descriptor.
\<close>

theorem classify_total:
  "(classify k \<noteq> other) = (k \<in> {0, 1, 2, 3, 4, 5, 6, 7, 40, 41, 42, 43, 44, 22242}) \<and>
   map_of supportedEventKinds (Kind k) =
     (if k \<in> {0, 1, 2, 3, 4, 5, 6, 7, 40, 41, 42, 43, 44, 22242} then Some (classify k)
      else None)"
  by (auto simp add: classify_def supportedEventKinds_def other_def ascii_def)

theorem classify_total_witness:
  "classify 1 \<noteq> other \<and> classify 22242 \<noteq> other \<and> classify (- 1) = other \<and>
   classify 8 = other \<and> classify 30023 = other"
  using classify_total [of 1] classify_total [of 22242] classify_total [of "- 1"]
    classify_total [of 8] classify_total [of 30023]
  by simp

subsection \<open>The relay information document\<close>

text \<open>
  Claim C8. From the initial state the effect issues exactly one request, a \<open>GET\<close> with
  the header \<open>Accept: application/nostr+json\<close>, and however the fetch ends there is no
  second one. The relay information document is the parsed body when the response has
  a status from 200 to 299 (and its body is JSON); on a network error and on any other
  status it is still the initial empty object.
\<close>

theorem relay_info_fetch:
  "requests (fst (fetch_settled outcome (fetch_relay_info HttpRelayUrl initial_state))) =
     [\<lparr>url = HttpRelayUrl, http_method = ascii ''GET'',
       headers = [(ascii ''Accept'', ascii ''application/nostr+json'')]\<rparr>] \<and>
   relayInformationDocument
       (fst (fetch_settled outcome (fetch_relay_info HttpRelayUrl initial_state))) =
     (case outcome of
        Rejected \<Rightarrow> JObject []
      | Response status Not_JSON \<Rightarrow> JObject []
      | Response status (JSON_text doc) \<Rightarrow>
          if 200 \<le> status \<and> status \<le> 299 then doc else JObject [])"
  by (auto simp add: fetch_settled_def on_response_def ok_def fetch_relay_info_def
      relay_info_request_def initial_state_def split: fetch_outcome.splits json_text.splits)

theorem relay_info_fetch_witness:
  "relayInformationDocument
     (fst (fetch_settled (Response 500 (JSON_text info_doc))
        (fetch_relay_info (ascii ''http://umbrel.local:4848'') initial_state))) = JObject [] \<and>
   relayInformationDocument
     (fst (fetch_settled (Response 200 (JSON_text info_doc))
        (fetch_relay_info (ascii ''http://umbrel.local:4848'') initial_state))) = info_doc \<and>
   relayInformationDocument
     (fst (fetch_settled Rejected
        (fetch_relay_info (ascii ''http://umbrel.local:4848'') initial_state))) = JObject []"
  using relay_info_fetch [of "Response 500 (JSON_text info_doc)" "ascii ''http://umbrel.local:4848''"]
    relay_info_fetch [of "Response 200 (JSON_text info_doc)" "ascii ''http://umbrel.local:4848''"]
    relay_info_fetch [of Rejected "ascii ''http://umbrel.local:4848''"]
  by simp

subsection \<open>A frame without a payload\<close>

text \<open>
  Claim C9. An array frame tagged \<open>EVENT\<close> with fewer than three elements, such as
  \<open>["EVENT", "sub1"]\<close>, is not logged and dropped: reading the payload at index 2 gives
  \<open>undefined\<close>, and destructuring it throws a \<open>TypeError\<close>.
\<close>

theorem short_EVENT_frame_throws:
  assumes "length rest < 2"
  shows "onmessage (JSON_text (JArray (JString (ascii ''EVENT'') # rest))) s = Inl TypeError"
  using assms by (simp add: onmessage_def)

theorem short_EVENT_frame_throws_witness:
  "length [sub1] < 2 \<and>
   onmessage (JSON_text (JArray [JString (ascii ''EVENT''), sub1])) initial_state = Inl TypeError"
  using short_EVENT_frame_throws [of "[sub1]" initial_state]
  by simp

subsection \<open>Errors and closure of the socket\<close>

text \<open>
  Claim C10. The error handler and the close handler each clear \<open>isConnected\<close> and
  change nothing else: putting the old value of \<open>isConnected\<close> back gives the state
  before the handler ran, so the event list, \<open>hasFetchedAllEvents\<close> and the relay
  information document are as they were.
\<close>

theorem onerror_onclose_frame:
  "isConnected (onerror s) = False \<and> (onerror s)\<lparr>isConnected := isConnected s\<rparr> = s \<and>
   events (onerror s) = events s \<and>
   hasFetchedAllEvents (onerror s) = hasFetchedAllEvents s \<and>
   relayInformationDocument (onerror s) = relayInformationDocument s \<and>
   isConnected (onclose s) = False \<and> (onclose s)\<lparr>isConnected := isConnected s\<rparr> = s \<and>
   events (onclose s) = events s \<and>
   hasFetchedAllEvents (onclose s) = hasFetchedAllEvents s \<and>
   relayInformationDocument (onclose s) = relayInformationDocument s"
  by (simp add: onerror_def onclose_def)

theorem onerror_onclose_frame_witness:
  "onerror (open_state\<lparr>isConnected := True, hasFetchedAllEvents := True\<rparr>) =
     open_state\<lparr>hasFetchedAllEvents := True\<rparr> \<and>
   onclose (open_state\<lparr>isConnected := True, hasFetchedAllEvents := True\<rparr>) =
     open_state\<lparr>hasFetchedAllEvents := True\<rparr>"
  using onerror_onclose_frame [of "open_state\<lparr>isConnected := True, hasFetchedAllEvents := True\<rparr>"]
  by (simp add: open_state_def initial_state_def onerror_def onclose_def)

end
